theory Spec2Isabelle
  imports Main "HOL-Library.Sublist"
begin

section \<open>The Medium tag-feed proxy (\<^verbatim>\<open>src/main.py\<close>)\<close>

text \<open>
  The program is one Flask handler, \<^verbatim>\<open>get_tag_feed_handler\<close>, and one helper,
  \<^verbatim>\<open>clean_medium_response\<close>. The handler validates the client's JSON body, posts a fixed
  GraphQL query to Medium, cleans and parses the answer, and reshapes the items into a flat
  list of articles. Everything the handler touches is JSON, so the embedding starts with the
  values \<^verbatim>\<open>json.loads\<close> and \<^verbatim>\<open>request.get_json\<close> produce.

  Strings are Isabelle strings, lists of 8-bit characters; the string functions that follow
  the Unicode tables (\<^verbatim>\<open>repr\<close>, \<^verbatim>\<open>str.strip\<close>, \<^verbatim>\<open>str.upper\<close>) are taken from the library.
  JSON numbers are the integers (fractional numbers are not modelled). Logging is not
  modelled: it never changes a response, except where the expression that is logged can
  itself raise (\<^verbatim>\<open>len(items)\<close>, \<^verbatim>\<open>e.response.status_code\<close>, \<^verbatim>\<open>e.response.json()\<close>), which
  is modelled.
\<close>

subsection \<open>JSON values as Python sees them\<close>

datatype json =
    JNull
  | JBool bool
  | JNum int
  | JStr string
  | JArr "json list"
  | JObj "(string \<times> json) list"

text \<open>Python's truth value of a JSON value, as \<^verbatim>\<open>if not x\<close> tests it.\<close>

fun truthy :: "json \<Rightarrow> bool" where
  "truthy JNull = False"
| "truthy (JBool b) = b"
| "truthy (JNum n) = (n \<noteq> 0)"
| "truthy (JStr s) = (s \<noteq> [])"
| "truthy (JArr xs) = (xs \<noteq> [])"
| "truthy (JObj kvs) = (kvs \<noteq> [])"

text \<open>
  The exceptions the handler can meet, one constructor for each \<^verbatim>\<open>except\<close> clause that
  tells them apart. An \<^verbatim>\<open>HTTPError\<close> carries the response it was raised for (which
  \<^verbatim>\<open>requests\<close> allows to be \<^verbatim>\<open>None\<close>); the strings are what \<^verbatim>\<open>str(e)\<close> returns.
\<close>

record http_response =
  status_code :: nat
  reason :: string
  url :: string
  response_text :: string

datatype exn =
    HTTPError "http_response option" string
  | Timeout
  | RequestException string
  | JSONDecodeError string
  | AttributeError
  | TypeError
  | KeyError
  | RecursionError
  | OtherException

text \<open>Sequencing of statements that may raise: the first exception ends the block.\<close>

definition then_do :: "exn + 'a \<Rightarrow> ('a \<Rightarrow> exn + 'b) \<Rightarrow> exn + 'b" where
  "then_do x f = (case x of Inl e \<Rightarrow> Inl e | Inr v \<Rightarrow> f v)"

text \<open>
  \<^verbatim>\<open>v.get(k, d)\<close>: on a dict the value stored under \<open>k\<close>, or \<open>d\<close> when the key is absent;
  any other JSON value has no \<^verbatim>\<open>get\<close> attribute.
\<close>

definition dict_get :: "json \<Rightarrow> string \<Rightarrow> json \<Rightarrow> exn + json" where
  "dict_get v k d =
     (case v of
        JObj kvs \<Rightarrow> Inr (case map_of kvs k of None \<Rightarrow> d | Some x \<Rightarrow> x)
      | _ \<Rightarrow> Inl AttributeError)"

subsection \<open>The string functions of Python the handler uses\<close>

definition startswith :: "string \<Rightarrow> string \<Rightarrow> bool" where
  "startswith s p = (take (length p) s = p)"

definition digit :: "nat \<Rightarrow> char" where
  "digit d = ''0123456789'' ! d"

fun str_nat :: "nat \<Rightarrow> string" where
  "str_nat n = (if n < 10 then [digit n] else str_nat (n div 10) @ [digit (n mod 10)])"

declare str_nat.simps [simp del]

definition str_int :: "int \<Rightarrow> string" where
  "str_int i = (if i < 0 then CHR ''-'' # str_nat (nat (- i)) else str_nat (nat i))"

text \<open>
  \<^verbatim>\<open>str(v)\<close>, which is also what an f-string writes for \<open>v\<close>. The text of a list or a dict is
  Python's \<^verbatim>\<open>repr\<close>, a library function taken as the parameter \<open>repr\<close>. So are
  \<^verbatim>\<open>str.strip\<close> and \<^verbatim>\<open>str.upper\<close>, which follow the Unicode tables: the handler takes them
  from the library record below.
\<close>

fun py_str :: "(json \<Rightarrow> string) \<Rightarrow> json \<Rightarrow> string" where
  "py_str repr (JStr s) = s"
| "py_str repr JNull = ''None''"
| "py_str repr (JBool b) = (if b then ''True'' else ''False'')"
| "py_str repr (JNum n) = str_int n"
| "py_str repr v = repr v"

fun join :: "string \<Rightarrow> string list \<Rightarrow> string" where
  "join sep [] = []"
| "join sep [x] = x"
| "join sep (x # y # ys) = x @ sep @ join sep (y # ys)"

subsection \<open>\<^verbatim>\<open>clean_medium_response\<close>\<close>

definition prefix_to_remove :: string where
  "prefix_to_remove = ''])}while(1);</x>''"

definition clean_medium_response :: "string \<Rightarrow> string" where
  "clean_medium_response text =
     (if startswith text prefix_to_remove
      then drop (length prefix_to_remove) text
      else text)"

subsection \<open>One upstream item (lines 155 to 187)\<close>

record article =
  title :: json
  author :: json
  link :: json

text \<open>
  The fallback link construction of lines 167 to 177, entered when \<^verbatim>\<open>mediumUrl\<close> gave
  nothing. When neither branch assigns, \<^verbatim>\<open>article_link\<close> keeps the value it had.
\<close>

definition fallback_link :: "(json \<Rightarrow> string) \<Rightarrow> json \<Rightarrow> json \<Rightarrow> json \<Rightarrow> exn + json" where
  "fallback_link repr feed_id post_data article_link =
     then_do (dict_get post_data ''uniqueSlug'' JNull) (\<lambda>unique_slug.
     then_do (dict_get post_data ''creator'' (JObj [])) (\<lambda>creator.
     then_do (dict_get creator ''username'' JNull) (\<lambda>author_username.
       if truthy unique_slug then
         if truthy author_username then
           Inr (JStr (''https://'' @ py_str repr author_username @ ''.medium.com/''
                        @ py_str repr unique_slug))
         else
           then_do (dict_get post_data ''id'' unique_slug) (\<lambda>post_id.
             Inr (JStr (''https://medium.com/p/'' @ py_str repr post_id)))
       else if truthy feed_id then
         Inr (JStr (''https://medium.com/p/'' @ py_str repr feed_id))
       else Inr article_link)))"

text \<open>
  The body of the loop: \<open>Inr None\<close> is \<^verbatim>\<open>continue\<close>, \<open>Inr (Some a)\<close> is the article that
  is appended, \<open>Inl e\<close> is an exception that leaves the loop.
\<close>

definition process_item :: "(json \<Rightarrow> string) \<Rightarrow> json \<Rightarrow> exn + article option" where
  "process_item repr item =
     then_do (dict_get item ''post'' JNull) (\<lambda>post_data.
       if \<not> truthy post_data then Inr None
       else
         then_do (dict_get item ''feedId'' JNull) (\<lambda>feed_id.
         then_do (dict_get post_data ''title'' (JStr ''Untitled'')) (\<lambda>title.
         then_do (dict_get post_data ''creator'' (JObj [])) (\<lambda>creator.
         then_do (dict_get creator ''name'' (JStr ''Unknown Author'')) (\<lambda>author_name.
         then_do (dict_get post_data ''mediumUrl'' JNull) (\<lambda>article_link.
         then_do (if \<not> truthy article_link
                  then fallback_link repr feed_id post_data article_link
                  else Inr article_link) (\<lambda>article_link.
         then_do (if \<not> truthy article_link
                  then then_do (dict_get post_data ''id'' JNull) (\<lambda>post_id.
                         Inr (JStr (''Link construction failed (feedId: '' @ py_str repr feed_id
                                      @ '', postId: '' @ py_str repr post_id @ '')'')))
                  else Inr article_link) (\<lambda>article_link.
           Inr (Some \<lparr>title = title, author = author_name, link = article_link\<rparr>)))))))))"

text \<open>The \<^verbatim>\<open>for\<close> loop of line 154, with \<^verbatim>\<open>processed_articles\<close> as the accumulator.\<close>

fun items_loop :: "(json \<Rightarrow> string) \<Rightarrow> article list \<Rightarrow> json list \<Rightarrow> exn + article list" where
  "items_loop repr processed_articles [] = Inr processed_articles"
| "items_loop repr processed_articles (item # items) =
     (case process_item repr item of
        Inl e \<Rightarrow> Inl e
      | Inr None \<Rightarrow> items_loop repr processed_articles items
      | Inr (Some a) \<Rightarrow> items_loop repr (processed_articles @ [a]) items)"

text \<open>
  What \<^verbatim>\<open>len(items)\<close> and \<^verbatim>\<open>enumerate(items)\<close> make of a JSON value: a list gives its
  elements, a dict its keys, a string its characters; nothing else has a length.
\<close>

definition iterate :: "json \<Rightarrow> exn + json list" where
  "iterate items =
     (case items of
        JArr xs \<Rightarrow> Inr xs
      | JObj kvs \<Rightarrow> Inr (map (\<lambda>kv. JStr (fst kv)) kvs)
      | JStr s \<Rightarrow> Inr (map (\<lambda>c. JStr [c]) s)
      | _ \<Rightarrow> Inl TypeError)"

subsection \<open>Responses\<close>

record response =
  status :: nat
  body :: json

text \<open>\<^verbatim>\<open>return jsonify({...}), status\<close>\<close>

definition respond :: "(string \<times> json) list \<Rightarrow> nat \<Rightarrow> response" where
  "respond entries code = \<lparr>status = code, body = JObj entries\<rparr>"

definition article_json :: "article \<Rightarrow> json" where
  "article_json a = JObj [(''title'', title a), (''author'', author a), (''link'', link a)]"

subsection \<open>From the parsed payload to the response (lines 144 to 190)\<close>

definition normalize_payload :: "(json \<Rightarrow> string) \<Rightarrow> json \<Rightarrow> exn + response" where
  "normalize_payload repr data_from_medium =
     then_do (dict_get data_from_medium ''data'' (JObj [])) (\<lambda>data.
     then_do (dict_get data ''tagFeed'' (JObj [])) (\<lambda>tag_feed.
     then_do (dict_get tag_feed ''items'' (JArr [])) (\<lambda>items.
     then_do (iterate items) (\<lambda>item_list.
     then_do (items_loop repr [] item_list) (\<lambda>processed_articles.
       Inr (respond [(''articles'', JArr (map article_json processed_articles))] 200))))))"

text \<open>\<^verbatim>\<open>k in v\<close> and \<^verbatim>\<open>v[k]\<close> for a string \<open>k\<close>.\<close>

definition py_in :: "string \<Rightarrow> json \<Rightarrow> exn + bool" where
  "py_in k v =
     (case v of
        JObj kvs \<Rightarrow> Inr (map_of kvs k \<noteq> None)
      | JArr xs \<Rightarrow> Inr (JStr k \<in> set xs)
      | JStr s \<Rightarrow> Inr (sublist k s)
      | _ \<Rightarrow> Inl TypeError)"

definition subscript :: "json \<Rightarrow> string \<Rightarrow> exn + json" where
  "subscript v k =
     (case v of
        JObj kvs \<Rightarrow> (case map_of kvs k of None \<Rightarrow> Inl KeyError | Some x \<Rightarrow> Inr x)
      | _ \<Rightarrow> Inl TypeError)"

definition process_payload :: "(json \<Rightarrow> string) \<Rightarrow> json \<Rightarrow> exn + response" where
  "process_payload repr data_from_medium =
     then_do (py_in ''errors'' data_from_medium) (\<lambda>present.
     then_do (if present then subscript data_from_medium ''errors'' else Inr JNull) (\<lambda>errors.
       if present \<and> truthy errors
       then Inr (respond [(''error'', JStr ''GraphQL error(s) received from Medium.''),
                          (''details'', errors)] 400)
       else normalize_payload repr data_from_medium))"

subsection \<open>The call to Medium (lines 130 to 219)\<close>

record upstream_request =
  endpoint :: string
  headers :: "(string \<times> string) list"
  variables :: "(string \<times> json) list"
  timeout :: nat

text \<open>
  The library the handler stands on: \<^verbatim>\<open>requests.post\<close>, \<^verbatim>\<open>json.loads\<close> and
  \<^verbatim>\<open>Response.json\<close>, each of which either returns or raises, and the string functions
  \<^verbatim>\<open>repr\<close>, \<^verbatim>\<open>str.strip\<close> and \<^verbatim>\<open>str.upper\<close>.
\<close>

record library =
  requests_post :: "upstream_request \<Rightarrow> exn + http_response"
  json_loads :: "string \<Rightarrow> exn + json"
  response_json :: "http_response \<Rightarrow> exn + json"
  py_repr :: "json \<Rightarrow> string"
  py_strip :: "string \<Rightarrow> string"
  py_upper :: "string \<Rightarrow> string"

text \<open>
  \<^verbatim>\<open>Response.raise_for_status\<close> of \<^verbatim>\<open>requests\<close>: an \<^verbatim>\<open>HTTPError\<close> carrying the response
  for a 4xx or 5xx status (the comment on line 137), nothing otherwise.
\<close>

definition raise_for_status :: "http_response \<Rightarrow> exn + unit" where
  "raise_for_status r =
     (if 400 \<le> status_code r \<and> status_code r < 500 then
        Inl (HTTPError (Some r)
               (str_nat (status_code r) @ '' Client Error: '' @ reason r @ '' for url: '' @ url r))
      else if 500 \<le> status_code r \<and> status_code r < 600 then
        Inl (HTTPError (Some r)
               (str_nat (status_code r) @ '' Server Error: '' @ reason r @ '' for url: '' @ url r))
      else Inr ())"

definition try_block :: "library \<Rightarrow> upstream_request \<Rightarrow> exn + response" where
  "try_block lib req =
     then_do (requests_post lib req) (\<lambda>response_from_medium.
     then_do (raise_for_status response_from_medium) (\<lambda>u.
     then_do (json_loads lib (clean_medium_response (response_text response_from_medium)))
       (\<lambda>data_from_medium. process_payload (py_repr lib) data_from_medium)))"

text \<open>
  The \<^verbatim>\<open>except\<close> clauses, in the order of the source. The first one reads
  \<^verbatim>\<open>e.response.status_code\<close> for its log message (line 194) before it chooses the status
  (line 201), and then calls \<^verbatim>\<open>e.response.json()\<close> in an inner \<^verbatim>\<open>try\<close> that catches a
  \<^verbatim>\<open>JSONDecodeError\<close> only (lines 195 to 199). An exception raised inside a clause is not
  caught by the clauses after it and leaves the handler.
\<close>

definition except_clauses :: "library \<Rightarrow> exn \<Rightarrow> exn + response" where
  "except_clauses lib e =
     (case e of
        HTTPError resp msg \<Rightarrow>
          then_do (case resp of None \<Rightarrow> Inl AttributeError | Some r \<Rightarrow> Inr r)
            (\<lambda>r.
          then_do (case response_json lib r of
                     Inr medium_error_details \<Rightarrow> Inr ()
                   | Inl (JSONDecodeError m) \<Rightarrow> Inr ()
                   | Inl other \<Rightarrow> Inl other)
            (\<lambda>logged.
               Inr (respond [(''error'', JStr ''Failed to communicate effectively with Medium API.''),
                             (''details'', JStr msg)]
                      (case resp of Some r \<Rightarrow> status_code r | None \<Rightarrow> 503))))
      | Timeout \<Rightarrow>
          Inr (respond [(''error'', JStr ''Request to Medium API timed out.''),
                        (''details'', JStr ''The upstream server took too long to respond.'')] 504)
      | RequestException msg \<Rightarrow>
          Inr (respond [(''error'',
                         JStr ''Network error connecting to Medium API. Check internet connection.''),
                        (''details'', JStr msg)] 503)
      | JSONDecodeError msg \<Rightarrow>
          Inr (respond [(''error'', JStr ''Invalid or unexpected response format from Medium.''),
                        (''details'', JStr msg)] 502)
      | _ \<Rightarrow>
          Inr (respond [(''error'', JStr ''An unexpected internal server error occurred.''),
                        (''details'', JStr ''Please check server logs.'')] 500))"

definition call_medium :: "library \<Rightarrow> upstream_request \<Rightarrow> exn + response" where
  "call_medium lib req =
     (case try_block lib req of Inl e \<Rightarrow> except_clauses lib e | Inr r \<Rightarrow> Inr r)"

subsection \<open>\<^verbatim>\<open>get_tag_feed_handler\<close>\<close>

definition MEDIUM_GRAPHQL_ENDPOINT :: string where
  "MEDIUM_GRAPHQL_ENDPOINT = ''https://medium.com/_/graphql''"

definition BASE_REQUEST_HEADERS :: "(string \<times> string) list" where
  "BASE_REQUEST_HEADERS =
     [(''Content-Type'', ''application/json''),
      (''Accept'', ''application/json''),
      (''Origin'', ''https://medium.com''),
      (''Referer'', ''https://medium.com/''),
      (''User-Agent'',
       ''PythonBackend/1.0 (MediumFeedFetcher; +https://yourdomain.com/info)'')]"

definition valid_modes :: "string list" where
  "valid_modes = [''HOT'', ''NEW'', ''TOP_ALL_TIME'', ''TOP_MONTH'', ''TOP_WEEK'', ''TOP_YEAR'']"

text \<open>
  The request of lines 110 to 136. The query text is a fixed literal and is left out of the
  record; the two variables are what the client chose.
\<close>

definition build_request :: "string \<Rightarrow> json \<Rightarrow> string \<Rightarrow> upstream_request" where
  "build_request api_key tag_slug mode =
     \<lparr>endpoint = MEDIUM_GRAPHQL_ENDPOINT,
      headers = BASE_REQUEST_HEADERS @ [(''Authorization'', ''Bearer '' @ api_key)],
      variables = [(''tagSlug'', tag_slug), (''mode'', JStr mode)],
      timeout = 25\<rparr>"

text \<open>
  The handler. Its arguments are the library, the environment variable
  \<^verbatim>\<open>MEDIUM_API_KEY\<close> (\<open>None\<close> when unset) and what \<^verbatim>\<open>request.get_json()\<close> does: raise, or
  return a value (\<open>JNull\<close> for \<^verbatim>\<open>None\<close>). The result is what the handler returns, or the
  exception that leaves it, together with the requests it sent to Medium.
\<close>

definition get_tag_feed_handler ::
  "library \<Rightarrow> string option \<Rightarrow> exn + json \<Rightarrow> (exn + response) \<times> upstream_request list" where
  "get_tag_feed_handler lib MEDIUM_API_KEY get_json =
     (case MEDIUM_API_KEY of
        None \<Rightarrow>
          (Inr (respond [(''error'', JStr ''Server configuration error: API key missing.'')] 500), [])
      | Some api_key \<Rightarrow>
          if api_key = [] then
            (Inr (respond [(''error'', JStr ''Server configuration error: API key missing.'')] 500),
             [])
          else
            (case get_json of
               Inl e \<Rightarrow>
                 (Inr (respond [(''error'', JStr ''Invalid JSON format in request body.'')] 400), [])
             | Inr client_data \<Rightarrow>
                 if \<not> truthy client_data then
                   (Inr (respond [(''error'',
                            JStr ''No JSON data provided in request body or invalid JSON format.'')]
                          400), [])
                 else
                   (case dict_get client_data ''tagSlug'' JNull of
                      Inl e \<Rightarrow> (Inl e, [])
                    | Inr tag_slug \<Rightarrow>
                       (case dict_get client_data ''mode'' JNull of
                          Inl e \<Rightarrow> (Inl e, [])
                        | Inr mode \<Rightarrow>
                            if \<not> truthy tag_slug then
                              (Inr (respond [(''error'',
                                       JStr ''Missing 'tagSlug' in request body.'')] 400), [])
                            else if \<not> truthy mode then
                              (Inr (respond [(''error'',
                                       JStr ''Missing 'mode' in request body.'')] 400), [])
                            else
                              (let mode = py_upper lib (py_strip lib (py_str (py_repr lib) mode)) in
                               if mode \<notin> set valid_modes then
                                 (Inr (respond [(''error'',
                                          JStr (''Invalid mode. Must be one of: ''
                                                  @ join '', '' valid_modes))] 400), [])
                               else
                                 (let req = build_request api_key tag_slug mode in
                                  (call_medium lib req, [req])))))))"

text \<open>
  A library for the concrete runs below. Medium answers every request with one fixed outcome;
  the parser knows one text, for \<^verbatim>\<open>json.loads\<close> and for \<^verbatim>\<open>Response.json\<close> alike;
  \<^verbatim>\<open>repr\<close> is never the point. The runs use modes made of ASCII letters and blanks, on
  which Python's \<^verbatim>\<open>strip\<close> and \<^verbatim>\<open>upper\<close> do what the two stubs do: drop the blanks at
  both ends, and put the letters a to z in capitals.
\<close>

definition stub_repr :: "json \<Rightarrow> string" where
  "stub_repr v = ''<repr>''"

definition stub_strip :: "string \<Rightarrow> string" where
  "stub_strip s =
     rev (dropWhile (\<lambda>c. c = CHR '' '') (rev (dropWhile (\<lambda>c. c = CHR '' '') s)))"

definition stub_upper :: "string \<Rightarrow> string" where
  "stub_upper s =
     map (\<lambda>c. case map_of (zip ''abcdefghijklmnopqrstuvwxyz'' ''ABCDEFGHIJKLMNOPQRSTUVWXYZ'') c of
                 Some u \<Rightarrow> u
               | None \<Rightarrow> c) s"

definition stub_parse :: "string \<Rightarrow> json \<Rightarrow> string \<Rightarrow> exn + json" where
  "stub_parse known_text payload s =
     (if s = known_text then Inr payload
      else Inl (JSONDecodeError ''Expecting value: line 1 column 1 (char 0)''))"

definition stub_library :: "exn + http_response \<Rightarrow> string \<Rightarrow> json \<Rightarrow> library" where
  "stub_library answer known_text payload =
     \<lparr>requests_post = (\<lambda>req. answer),
      json_loads = stub_parse known_text payload,
      response_json = (\<lambda>r. stub_parse known_text payload (response_text r)),
      py_repr = stub_repr,
      py_strip = stub_strip,
      py_upper = stub_upper\<rparr>"

text \<open>
  What \<^verbatim>\<open>Response.json\<close> does on a body nested deeper than the interpreter's recursion
  limit, such as a hundred thousand opening brackets: the JSON decoder raises
  \<^verbatim>\<open>RecursionError\<close>, which is no \<^verbatim>\<open>JSONDecodeError\<close>.
\<close>

definition too_deep_json :: "http_response \<Rightarrow> exn + json" where
  "too_deep_json r = Inl RecursionError"

subsection \<open>Vocabulary of the properties\<close>

text \<open>
  The value an object holds under a key, \<open>JNull\<close> when the key is absent: what
  \<^verbatim>\<open>d.get(k)\<close> returns on a dict. A field is \<^emph>\<open>present and non-empty\<close> when this value is
  \<^const>\<open>truthy\<close>.
\<close>

definition field :: "(string \<times> json) list \<Rightarrow> string \<Rightarrow> json" where
  "field kvs k = (case map_of kvs k of None \<Rightarrow> JNull | Some v \<Rightarrow> v)"

text \<open>
  The creator of a post as the upstream data model has it: an object, which counts as empty
  when the post has no \<^verbatim>\<open>creator\<close> key. A creator that is anything else (JSON null, a
  string) has no fields.
\<close>

definition creator_fields :: "(string \<times> json) list \<Rightarrow> (string \<times> json) list option" where
  "creator_fields post =
     (case map_of post ''creator'' of
        None \<Rightarrow> Some []
      | Some (JObj c) \<Rightarrow> Some c
      | Some other \<Rightarrow> None)"

text \<open>An item has a post when it is an object whose \<^verbatim>\<open>post\<close> is present and non-empty.\<close>

definition has_post :: "json \<Rightarrow> bool" where
  "has_post item = (case item of JObj kvs \<Rightarrow> truthy (field kvs ''post'') | other \<Rightarrow> False)"

text \<open>
  The items the loop body accepts: objects whose post is missing, or is an object with a
  creator that is an object or absent.
\<close>

definition well_formed_item :: "json \<Rightarrow> bool" where
  "well_formed_item item =
     (case item of
        JObj kvs \<Rightarrow>
          (if truthy (field kvs ''post'')
           then (case field kvs ''post'' of
                   JObj post \<Rightarrow> creator_fields post \<noteq> None
                 | other \<Rightarrow> False)
           else True)
      | other \<Rightarrow> False)"

text \<open>An item whose post gives \<^verbatim>\<open>mediumUrl\<close> as text, as null, or not at all.\<close>

definition textual_url :: "json \<Rightarrow> bool" where
  "textual_url item =
     (case item of
        JObj kvs \<Rightarrow>
          (case field kvs ''post'' of
             JObj post \<Rightarrow>
               (case field post ''mediumUrl'' of
                  JStr s \<Rightarrow> True
                | JNull \<Rightarrow> True
                | other \<Rightarrow> False)
           | other \<Rightarrow> True)
      | other \<Rightarrow> True)"

text \<open>
  The link the loop body computes for a post (lines 164 to 180), as one expression over the
  fields of the item, the post and the creator. Line 175 is taken as it is written:
  \<^verbatim>\<open>post_data.get('id', unique_slug)\<close> gives the slug only when the post has no \<^verbatim>\<open>id\<close>
  key.
\<close>

definition link_by_priority ::
  "(json \<Rightarrow> string) \<Rightarrow> json \<Rightarrow> (string \<times> json) list \<Rightarrow> (string \<times> json) list \<Rightarrow> json" where
  "link_by_priority repr feed_id post c =
    (if truthy (field post ''mediumUrl'') then field post ''mediumUrl''
     else if truthy (field post ''uniqueSlug'') then
       (if truthy (field c ''username'') then
          JStr (''https://'' @ py_str repr (field c ''username'') @ ''.medium.com/''
                  @ py_str repr (field post ''uniqueSlug''))
        else JStr (''https://medium.com/p/''
                     @ py_str repr (case map_of post ''id'' of
                                      None \<Rightarrow> field post ''uniqueSlug''
                                    | Some v \<Rightarrow> v)))
     else if truthy feed_id then JStr (''https://medium.com/p/'' @ py_str repr feed_id)
     else JStr (''Link construction failed (feedId: '' @ py_str repr feed_id
                  @ '', postId: '' @ py_str repr (field post ''id'') @ '')''))"

text \<open>The answer of the catch-all \<^verbatim>\<open>except\<close> clause.\<close>

definition internal_error :: response where
  "internal_error =
     respond [(''error'', JStr ''An unexpected internal server error occurred.''),
              (''details'', JStr ''Please check server logs.'')] 500"

section \<open>Properties\<close>

subsection \<open>Facts used throughout\<close>

lemma then_do_simps [simp]:
  "then_do (Inl e) f = Inl e"
  "then_do (Inr v) f = f v"
  by (simp_all add: then_do_def)

lemma length_prefix_to_remove: "length prefix_to_remove = 16"
  by (simp add: prefix_to_remove_def)

lemma startswith_iff_prefix: "startswith s p = prefix p s"
  by (metis startswith_def append_take_drop_id prefix_def append_eq_conv_conj)

lemma clean_medium_response_append: "clean_medium_response (prefix_to_remove @ t) = t"
  by (simp add: clean_medium_response_def startswith_def)

subsection \<open>The loop body and the loop\<close>

lemma dict_get_object:
  "dict_get (JObj kvs) k d = Inr (case map_of kvs k of None \<Rightarrow> d | Some x \<Rightarrow> x)"
  by (simp add: dict_get_def)

lemma dict_get_null_field: "dict_get (JObj kvs) k JNull = Inr (field kvs k)"
  by (simp add: field_def dict_get_def)

lemma dict_get_not_object:
  "(\<And>kvs. v \<noteq> JObj kvs) \<Longrightarrow> dict_get v k d = Inl AttributeError"
  by (cases v) (auto simp: dict_get_def)

lemma creator_fields_Some:
  "creator_fields post = Some c \<Longrightarrow>
     dict_get (JObj post) ''creator'' (JObj []) = Inr (JObj c)"
  by (auto simp: creator_fields_def dict_get_object split: option.splits json.splits)

lemma creator_fields_None:
  "creator_fields post = None \<Longrightarrow>
     \<exists>v. dict_get (JObj post) ''creator'' (JObj []) = Inr v \<and> (\<forall>c. v \<noteq> JObj c)"
  by (auto simp: creator_fields_def dict_get_object split: option.splits json.splits)

lemma process_item_emits:
  assumes "field kvs ''post'' = JObj post" "post \<noteq> []" "creator_fields post = Some c"
  shows "process_item repr (JObj kvs) =
    Inr (Some \<lparr>title = (case map_of post ''title'' of None \<Rightarrow> JStr ''Untitled'' | Some v \<Rightarrow> v),
               author = (case map_of c ''name'' of None \<Rightarrow> JStr ''Unknown Author'' | Some v \<Rightarrow> v),
               link = link_by_priority repr (field kvs ''feedId'') post c\<rparr>)"
proof -
  have cr: "(case map_of post ''creator'' of None \<Rightarrow> JObj [] | Some x \<Rightarrow> x) = JObj c"
    using assms(3) by (auto simp: creator_fields_def split: option.splits json.splits)
  have p: "(case map_of kvs ''post'' of None \<Rightarrow> JNull | Some x \<Rightarrow> x) = JObj post"
    using assms(1) by (simp add: field_def)
  show ?thesis
    unfolding process_item_def fallback_link_def link_by_priority_def field_def dict_get_object
    using assms(2) by (simp add: p cr dict_get_object)
qed


lemma truthy_link_by_priority: "truthy (link_by_priority repr feed_id post c)"
  by (simp add: link_by_priority_def)

lemma textual_link_by_priority:
  assumes "\<exists>s. field post ''mediumUrl'' = JStr s \<or> field post ''mediumUrl'' = JNull"
  shows "\<exists>s. link_by_priority repr feed_id post c = JStr s \<and> s \<noteq> []"
  using assms by (auto simp: link_by_priority_def)

lemma process_item_skips:
  "\<not> truthy (field kvs ''post'') \<Longrightarrow> process_item repr (JObj kvs) = Inr None"
  by (simp add: process_item_def dict_get_null_field)

lemma process_item_not_object:
  "(\<And>kvs. item \<noteq> JObj kvs) \<Longrightarrow> process_item repr item = Inl AttributeError"
  by (simp add: process_item_def dict_get_not_object)

lemma process_item_post_not_object:
  assumes "truthy (field kvs ''post'')" "\<And>post. field kvs ''post'' \<noteq> JObj post"
  shows "process_item repr (JObj kvs) = Inl AttributeError"
  using assms by (simp add: process_item_def dict_get_null_field dict_get_not_object)

lemma process_item_creator_not_object:
  assumes "field kvs ''post'' = JObj post" "post \<noteq> []" "creator_fields post = None"
  shows "process_item repr (JObj kvs) = Inl AttributeError"
proof -
  obtain v where v: "dict_get (JObj post) ''creator'' (JObj []) = Inr v" "\<And>c. v \<noteq> JObj c"
    using creator_fields_None [OF assms(3)] by blast
  have n: "dict_get v ''name'' (JStr ''Unknown Author'') = Inl AttributeError"
    using v(2) by (rule dict_get_not_object)
  have cr: "(case map_of post ''creator'' of None \<Rightarrow> JObj [] | Some x \<Rightarrow> x) = v"
    using v(1) by (simp add: dict_get_object)
  have p: "(case map_of kvs ''post'' of None \<Rightarrow> JNull | Some x \<Rightarrow> x) = JObj post"
    using assms(1) by (simp add: field_def)
  show ?thesis
    using assms(2) by (simp add: process_item_def dict_get_object p cr n)
qed

lemma well_formed_item_cases:
  assumes "well_formed_item item"
  obtains (skip) kvs where "item = JObj kvs" "\<not> truthy (field kvs ''post'')"
  | (emit) kvs post c where "item = JObj kvs" "field kvs ''post'' = JObj post" "post \<noteq> []"
      "creator_fields post = Some c"
  using assms
  by (auto simp: well_formed_item_def split: json.splits if_splits)

lemma process_item_returns_iff:
  "(\<exists>r. process_item repr item = Inr r) = well_formed_item item"
proof
  assume "well_formed_item item"
  then show "\<exists>r. process_item repr item = Inr r"
    by (cases rule: well_formed_item_cases)
       (auto simp: process_item_skips process_item_emits)
next
  assume r: "\<exists>r. process_item repr item = Inr r"
  show "well_formed_item item"
  proof (rule ccontr)
    assume n: "\<not> well_formed_item item"
    have "process_item repr item = Inl AttributeError"
    proof (cases item)
      case (JObj kvs)
      show ?thesis
      proof (cases "field kvs ''post''")
        case (JObj post)
        with n \<open>item = JObj kvs\<close> have "post \<noteq> []" "creator_fields post = None"
          by (auto simp: well_formed_item_def split: if_splits)
        with JObj \<open>item = JObj kvs\<close> show ?thesis
          by (simp add: process_item_creator_not_object)
      qed (use n \<open>item = JObj kvs\<close> in
            \<open>auto simp: well_formed_item_def process_item_post_not_object split: if_splits\<close>)
    qed (simp_all add: process_item_not_object)
    with r show False by simp
  qed
qed

lemma process_item_None_iff:
  assumes "process_item repr item = Inr r"
  shows "(r = None) = (\<not> has_post item)"
proof -
  have "well_formed_item item"
    using assms process_item_returns_iff by blast
  then show ?thesis
    using assms
    by (cases rule: well_formed_item_cases)
       (auto simp: process_item_skips process_item_emits has_post_def)
qed

lemma process_item_link:
  assumes "process_item repr item = Inr (Some a)"
  shows "truthy (link a)" "textual_url item \<Longrightarrow> \<exists>s. link a = JStr s \<and> s \<noteq> []"
proof -
  have wf: "well_formed_item item"
    using assms process_item_returns_iff by blast
  from wf assms show "truthy (link a)"
    by (cases rule: well_formed_item_cases)
       (auto simp: process_item_skips process_item_emits truthy_link_by_priority)
  assume t: "textual_url item"
  from wf assms t show "\<exists>s. link a = JStr s \<and> s \<noteq> []"
  proof (cases rule: well_formed_item_cases)
    case (emit kvs post c)
    with t have "\<exists>s. field post ''mediumUrl'' = JStr s \<or> field post ''mediumUrl'' = JNull"
      by (auto simp: textual_url_def split: json.splits)
    then have "\<exists>s. link_by_priority repr (field kvs ''feedId'') post c = JStr s \<and> s \<noteq> []"
      by (rule textual_link_by_priority)
    with emit assms show ?thesis
      by (auto simp: process_item_emits)
  qed (simp add: process_item_skips)
qed

lemma items_loop_acc:
  assumes "items_loop repr acc items = Inr arts"
  shows "\<exists>new. arts = acc @ new
           \<and> map (\<lambda>a. Inr (Some a)) new = map (process_item repr) (filter has_post items)"
  using assms
proof (induction items arbitrary: acc)
  case Nil
  then show ?case by simp
next
  case (Cons item items)
  show ?case
  proof (cases "process_item repr item")
    case (Inl e)
    with Cons.prems show ?thesis by simp
  next
    case (Inr r)
    show ?thesis
    proof (cases r)
      case None
      with Inr have "\<not> has_post item"
        using process_item_None_iff by blast
      moreover from Cons.prems Inr None have "items_loop repr acc items = Inr arts"
        by simp
      ultimately show ?thesis
        using Cons.IH by simp
    next
      case (Some a)
      with Inr have hp: "has_post item"
        using process_item_None_iff by blast
      from Cons.prems Inr Some have "items_loop repr (acc @ [a]) items = Inr arts"
        by simp
      then obtain new where "arts = (acc @ [a]) @ new"
          "map (\<lambda>a. Inr (Some a)) new = map (process_item repr) (filter has_post items)"
        using Cons.IH by blast
      with hp Inr Some show ?thesis
        by (intro exI [of _ "a # new"]) simp
    qed
  qed
qed

lemma items_loop_returns:
  assumes "\<forall>item\<in>set items. well_formed_item item"
  shows "\<exists>arts. items_loop repr acc items = Inr arts"
  using assms
proof (induction items arbitrary: acc)
  case Nil
  then show ?case by simp
next
  case (Cons item items)
  then obtain r where "process_item repr item = Inr r"
    using process_item_returns_iff by (metis list.set_intros(1))
  with Cons show ?case
    by (cases r) simp_all
qed

lemma items_loop_fails:
  assumes "item \<in> set items" "\<not> well_formed_item item"
  shows "items_loop repr acc items = Inl AttributeError"
  using assms
proof (induction items arbitrary: acc)
  case Nil
  then show ?case by simp
next
  case (Cons x xs)
  have err: "process_item repr y = Inl e \<Longrightarrow> e = AttributeError" for y e
    by (auto simp: process_item_def fallback_link_def dict_get_def then_do_def
          split: json.splits sum.splits if_splits)
  show ?case
  proof (cases "process_item repr x")
    case (Inl e)
    with err show ?thesis by simp
  next
    case (Inr r)
    then have "well_formed_item x"
      using process_item_returns_iff by blast
    with Cons.prems have "item \<in> set xs" by auto
    with Cons Inr show ?thesis
      by (cases r) simp_all
  qed
qed

lemma items_loop_sources:
  assumes "items_loop repr [] items = Inr arts"
  shows "map (\<lambda>a. Inr (Some a)) arts = map (process_item repr) (filter has_post items)"
    and "\<forall>item\<in>set items. well_formed_item item"
    and "a \<in> set arts \<Longrightarrow> \<exists>item\<in>set items. process_item repr item = Inr (Some a)"
proof -
  show m: "map (\<lambda>a. Inr (Some a)) arts = map (process_item repr) (filter has_post items)"
    using items_loop_acc [OF assms] by simp
  show "\<forall>item\<in>set items. well_formed_item item"
    using assms items_loop_fails [of _ items repr "[]"] by fastforce
  assume "a \<in> set arts"
  then have "Inr (Some a) \<in> set (map (process_item repr) (filter has_post items))"
    unfolding m [symmetric] by simp
  then show "\<exists>item\<in>set items. process_item repr item = Inr (Some a)"
    by auto
qed

subsection \<open>The handler around the loop\<close>

lemma handler_sent:
  assumes "snd (get_tag_feed_handler lib key client) = [req]"
  shows "fst (get_tag_feed_handler lib key client) = call_medium lib req"
  using assms
  by (auto simp: get_tag_feed_handler_def Let_def split: option.splits sum.splits if_splits)

lemma handler_accepts:
  assumes "api_key \<noteq> []"
    and "truthy (field client_data ''tagSlug'')" and "truthy (field client_data ''mode'')"
    and "py_upper lib (py_strip lib (py_str (py_repr lib) (field client_data ''mode''))) \<in> set valid_modes"
  shows "snd (get_tag_feed_handler lib (Some api_key) (Inr (JObj client_data)))
     = [build_request api_key (field client_data ''tagSlug'')
          (py_upper lib (py_strip lib (py_str (py_repr lib) (field client_data ''mode''))))]"
proof -
  have "client_data \<noteq> []"
    using assms(2) by (auto simp: field_def)
  then show ?thesis
    using assms
    by (simp add: get_tag_feed_handler_def dict_get_null_field Let_def)
qed

lemma raise_for_status_passes:
  "status_code r < 400 \<or> 600 \<le> status_code r \<Longrightarrow> raise_for_status r = Inr ()"
  by (auto simp: raise_for_status_def)

lemma raise_for_status_raises:
  "400 \<le> status_code r \<Longrightarrow> status_code r < 600 \<Longrightarrow>
     \<exists>msg. raise_for_status r = Inl (HTTPError (Some r) msg)"
  by (auto simp: raise_for_status_def)

lemma process_payload_object:
  "process_payload repr (JObj payload) =
     (if truthy (field payload ''errors'')
      then Inr (respond [(''error'', JStr ''GraphQL error(s) received from Medium.''),
                         (''details'', field payload ''errors'')] 400)
      else normalize_payload repr (JObj payload))"
  by (auto simp: process_payload_def py_in_def subscript_def field_def split: option.splits)

lemma call_medium_parsed:
  assumes "requests_post lib req = Inr r" and "status_code r < 400 \<or> 600 \<le> status_code r"
    and "json_loads lib (clean_medium_response (response_text r)) = Inr data"
  shows "call_medium lib req =
     (case process_payload (py_repr lib) data of Inl e \<Rightarrow> except_clauses lib e | Inr x \<Rightarrow> Inr x)"
  using assms
  by (simp add: call_medium_def try_block_def raise_for_status_passes)








lemma except_clauses_internal:
  "except_clauses lib AttributeError = Inr internal_error"
  "except_clauses lib TypeError = Inr internal_error"
  by (simp_all add: except_clauses_def internal_error_def)

subsection \<open>The handler past the upstream call\<close>

lemma http_error_without_response:
  "requests_post lib req = Inl (HTTPError None msg) \<Longrightarrow> call_medium lib req = Inl AttributeError"
  by (simp add: call_medium_def try_block_def except_clauses_def)

lemma handler_parsed:
  assumes "snd (get_tag_feed_handler lib key client) = [req]"
    and "requests_post lib req = Inr r" and "status_code r < 400 \<or> 600 \<le> status_code r"
    and "json_loads lib (clean_medium_response (response_text r)) = Inr (JObj payload)"
  shows "fst (get_tag_feed_handler lib key client) =
     (if truthy (field payload ''errors'')
      then Inr (respond [(''error'', JStr ''GraphQL error(s) received from Medium.''),
                         (''details'', field payload ''errors'')] 400)
      else (case normalize_payload (py_repr lib) (JObj payload) of
              Inl e \<Rightarrow> except_clauses lib e
            | Inr x \<Rightarrow> Inr x))"
  unfolding handler_sent [OF assms(1)] call_medium_parsed [OF assms(2,3,4)]
  by (simp add: process_payload_object)

subsection \<open>The article of one item\<close>

text \<open>
  Claim C1, as amended. Take an item with a post object (non-empty) whose creator is an
  object or absent. The loop body emits an article for it, and the link of that article is
  resolved by this chain, first match wins, where a field counts when it is present and
  non-empty: (1) \<^verbatim>\<open>post.mediumUrl\<close>; (2) with \<^verbatim>\<open>uniqueSlug\<close> and \<^verbatim>\<open>creator.username\<close>,
  \<^verbatim>\<open>https://{username}.medium.com/{uniqueSlug}\<close>; (3) with \<^verbatim>\<open>uniqueSlug\<close> and no
  username, \<^verbatim>\<open>https://medium.com/p/{X}\<close>, where \<open>X\<close> is \<^verbatim>\<open>post.id\<close> when that is present
  and non-empty, and \<^verbatim>\<open>uniqueSlug\<close> when the post has no \<^verbatim>\<open>id\<close> key; (4) with no
  \<^verbatim>\<open>uniqueSlug\<close> and with \<^verbatim>\<open>feedId\<close>, \<^verbatim>\<open>https://medium.com/p/{feedId}\<close>; (5) otherwise
  the placeholder \<^verbatim>\<open>Link construction failed (feedId: F, postId: P)\<close>. Nothing is said of
  a post whose \<^verbatim>\<open>id\<close> key holds null or an empty value.
\<close>

theorem link_priority_chain:
  assumes "field item ''post'' = JObj post" and "post \<noteq> []" and "creator_fields post = Some c"
  shows "\<exists>a. process_item repr (JObj item) = Inr (Some a)
    \<and> (truthy (field post ''mediumUrl'') \<longrightarrow> link a = field post ''mediumUrl'')
    \<and> (\<not> truthy (field post ''mediumUrl'') \<and> truthy (field post ''uniqueSlug'')
         \<and> truthy (field c ''username'') \<longrightarrow>
       link a = JStr (''https://'' @ py_str repr (field c ''username'') @ ''.medium.com/''
                        @ py_str repr (field post ''uniqueSlug'')))
    \<and> (\<not> truthy (field post ''mediumUrl'') \<and> truthy (field post ''uniqueSlug'')
         \<and> \<not> truthy (field c ''username'') \<and> truthy (field post ''id'') \<longrightarrow>
       link a = JStr (''https://medium.com/p/'' @ py_str repr (field post ''id'')))
    \<and> (\<not> truthy (field post ''mediumUrl'') \<and> truthy (field post ''uniqueSlug'')
         \<and> \<not> truthy (field c ''username'') \<and> map_of post ''id'' = None \<longrightarrow>
       link a = JStr (''https://medium.com/p/'' @ py_str repr (field post ''uniqueSlug'')))
    \<and> (\<not> truthy (field post ''mediumUrl'') \<and> \<not> truthy (field post ''uniqueSlug'')
         \<and> truthy (field item ''feedId'') \<longrightarrow>
       link a = JStr (''https://medium.com/p/'' @ py_str repr (field item ''feedId'')))
    \<and> (\<not> truthy (field post ''mediumUrl'') \<and> \<not> truthy (field post ''uniqueSlug'')
         \<and> \<not> truthy (field item ''feedId'') \<longrightarrow>
       link a = JStr (''Link construction failed (feedId: '' @ py_str repr (field item ''feedId'')
                        @ '', postId: '' @ py_str repr (field post ''id'') @ '')''))"
  unfolding process_item_emits [OF assms]
  by (auto simp: link_by_priority_def field_def split: option.splits)

text \<open>
  The three examples of the specification: \<^verbatim>\<open>mediumUrl\<close> wins over \<^verbatim>\<open>uniqueSlug\<close>; a slug
  with the username \<^verbatim>\<open>alice\<close>; a slug without username and with the post id \<^verbatim>\<open>123\<close>.
\<close>

theorem link_priority_chain_witness:
  "process_item stub_repr
     (JObj [(''feedId'', JStr ''f1''),
            (''post'', JObj [(''mediumUrl'', JStr ''https://medium.com/@a/x''),
                             (''uniqueSlug'', JStr ''my-slug'')])])
   = Inr (Some \<lparr>title = JStr ''Untitled'', author = JStr ''Unknown Author'',
                 link = JStr ''https://medium.com/@a/x''\<rparr>)
   \<and> process_item stub_repr
     (JObj [(''post'', JObj [(''uniqueSlug'', JStr ''my-slug''),
                             (''creator'', JObj [(''username'', JStr ''alice'')])])])
   = Inr (Some \<lparr>title = JStr ''Untitled'', author = JStr ''Unknown Author'',
                 link = JStr ''https://alice.medium.com/my-slug''\<rparr>)
   \<and> process_item stub_repr
     (JObj [(''post'', JObj [(''uniqueSlug'', JStr ''my-slug''), (''id'', JStr ''123'')])])
   = Inr (Some \<lparr>title = JStr ''Untitled'', author = JStr ''Unknown Author'',
                 link = JStr ''https://medium.com/p/123''\<rparr>)"
  using
    link_priority_chain [of "[(''feedId'', JStr ''f1''),
            (''post'', JObj [(''mediumUrl'', JStr ''https://medium.com/@a/x''),
                             (''uniqueSlug'', JStr ''my-slug'')])]"
       "[(''mediumUrl'', JStr ''https://medium.com/@a/x''), (''uniqueSlug'', JStr ''my-slug'')]"
       "[]" stub_repr]
    link_priority_chain [of "[(''post'', JObj [(''uniqueSlug'', JStr ''my-slug''),
                             (''creator'', JObj [(''username'', JStr ''alice'')])])]"
       "[(''uniqueSlug'', JStr ''my-slug''), (''creator'', JObj [(''username'', JStr ''alice'')])]"
       "[(''username'', JStr ''alice'')]" stub_repr]
    link_priority_chain [of
       "[(''post'', JObj [(''uniqueSlug'', JStr ''my-slug''), (''id'', JStr ''123'')])]"
       "[(''uniqueSlug'', JStr ''my-slug''), (''id'', JStr ''123'')]" "[]" stub_repr]
  by (simp add: field_def creator_fields_def process_item_def fallback_link_def dict_get_def)

text \<open>
  The claim as it was stated fails. It speaks of every item with a post object, but with a
  creator that is JSON null no link is resolved at all: the item raises. It takes the
  username branch whenever \<^verbatim>\<open>uniqueSlug\<close> is present, but a slug that is there and empty is
  passed over, since the code asks whether the slug is non-empty. And it falls back to the
  slug when there is no post id, as the comment on line 175 does, but a post id that is null
  is written into the link as \<^verbatim>\<open>None\<close>.
\<close>

theorem link_priority_chain_counterexample:
  "process_item stub_repr
     (JObj [(''post'', JObj [(''mediumUrl'', JStr ''https://medium.com/@a/x''),
                             (''creator'', JNull)])])
   = Inl AttributeError
   \<and> process_item stub_repr
     (JObj [(''post'', JObj [(''uniqueSlug'', JStr ''''),
                             (''creator'', JObj [(''username'', JStr ''alice'')])])])
   = Inr (Some \<lparr>title = JStr ''Untitled'', author = JStr ''Unknown Author'',
                 link = JStr ''Link construction failed (feedId: None, postId: None)''\<rparr>)
   \<and> process_item stub_repr
     (JObj [(''post'', JObj [(''uniqueSlug'', JStr ''my-slug''), (''id'', JNull)])])
   = Inr (Some \<lparr>title = JStr ''Untitled'', author = JStr ''Unknown Author'',
                 link = JStr ''https://medium.com/p/None''\<rparr>)"
  by (simp add: process_item_def fallback_link_def dict_get_def)

text \<open>
  Claim C2. The title of an emitted article should be \<^verbatim>\<open>post.title\<close> when that is present
  and non-empty and the literal \<^verbatim>\<open>Untitled\<close> when it is absent, empty or null; likewise the
  author should be \<^verbatim>\<open>post.creator.name\<close> or the literal \<^verbatim>\<open>Unknown Author\<close>. The code does
  not do this: lines 161 and 162 give the placeholders as defaults of \<^verbatim>\<open>dict.get\<close>, which
  are taken only when the key is absent. For a post with an empty title and a creator whose
  name is null, and for a post with a null title and an empty name, the article carries
  those values and no placeholder.
\<close>

theorem empty_title_and_null_name_kept:
  "process_item stub_repr
     (JObj [(''feedId'', JStr ''f1''),
            (''post'', JObj [(''title'', JStr ''''),
                             (''mediumUrl'', JStr ''https://medium.com/@a/x''),
                             (''creator'', JObj [(''name'', JNull)])])])
   = Inr (Some \<lparr>title = JStr '''', author = JNull,
                 link = JStr ''https://medium.com/@a/x''\<rparr>)
   \<and> process_item stub_repr
     (JObj [(''feedId'', JStr ''f2''),
            (''post'', JObj [(''title'', JNull),
                             (''mediumUrl'', JStr ''https://medium.com/@a/y''),
                             (''creator'', JObj [(''name'', JStr '''')])])])
   = Inr (Some \<lparr>title = JNull, author = JStr '''',
                 link = JStr ''https://medium.com/@a/y''\<rparr>)"
  by (simp add: process_item_def fallback_link_def dict_get_def)

subsection \<open>The list of articles\<close>

text \<open>
  Claim C3, as amended. For every list of well-formed items (objects whose post is missing,
  or is an object with a creator that is an object or absent) the loop produces its article
  list, and: an item lacking a post is skipped, without output and without error; the list
  is no longer than the item list, and strictly shorter as soon as one item lacks a post;
  the articles are, in the same order, exactly what the loop body makes of the items that
  have a post; every article has a link that is not empty, and that is a non-empty string
  whenever upstream gave \<^verbatim>\<open>mediumUrl\<close> as text, as null or not at all.
\<close>

theorem items_filtered_in_order:
  assumes "\<forall>item\<in>set items. well_formed_item item"
  shows "\<exists>arts. items_loop repr [] items = Inr arts
     \<and> length arts \<le> length items
     \<and> ((\<exists>item\<in>set items. \<not> has_post item) \<longrightarrow> length arts < length items)
     \<and> (\<forall>item\<in>set items. \<not> has_post item \<longrightarrow> process_item repr item = Inr None)
     \<and> map (\<lambda>a. Inr (Some a)) arts = map (process_item repr) (filter has_post items)
     \<and> (\<forall>a\<in>set arts. truthy (link a))
     \<and> ((\<forall>item\<in>set items. textual_url item) \<longrightarrow>
          (\<forall>a\<in>set arts. \<exists>s. link a = JStr s \<and> s \<noteq> []))"
proof -
  obtain arts where r: "items_loop repr [] items = Inr arts"
    using assms items_loop_returns by blast
  note m = items_loop_sources(1) [OF r]
  note src = items_loop_sources(3) [OF r]
  have len: "length arts = length (filter has_post items)"
    using arg_cong [OF m, of length] by simp
  have le: "length arts \<le> length items"
    unfolding len by (rule length_filter_le)
  have less: "(\<exists>item\<in>set items. \<not> has_post item) \<longrightarrow> length arts < length items"
    unfolding len by (auto intro: length_filter_less)
  have skip: "\<forall>item\<in>set items. \<not> has_post item \<longrightarrow> process_item repr item = Inr None"
  proof (intro ballI impI)
    fix item
    assume "item \<in> set items" and np: "\<not> has_post item"
    with assms obtain x where x: "process_item repr item = Inr x"
      using process_item_returns_iff by blast
    with np have "x = None"
      using process_item_None_iff by blast
    with x show "process_item repr item = Inr None"
      by simp
  qed
  have nonempty: "\<forall>a\<in>set arts. truthy (link a)"
    using src process_item_link(1) by blast
  have textual: "(\<forall>item\<in>set items. textual_url item) \<longrightarrow>
          (\<forall>a\<in>set arts. \<exists>s. link a = JStr s \<and> s \<noteq> [])"
  proof (intro impI ballI)
    fix a
    assume t: "\<forall>item\<in>set items. textual_url item" and "a \<in> set arts"
    then obtain item where "item \<in> set items" "process_item repr item = Inr (Some a)"
      using src by blast
    with t show "\<exists>s. link a = JStr s \<and> s \<noteq> []"
      using process_item_link(2) by blast
  qed
  from r le less skip m nonempty textual show ?thesis
    by blast
qed

text \<open>
  Three items, the first with \<^verbatim>\<open>post: null\<close>: two articles come out, in the order of
  their items.
\<close>

theorem items_filtered_in_order_witness:
  "items_loop stub_repr []
     [JObj [(''feedId'', JStr ''f1''), (''post'', JNull)],
      JObj [(''feedId'', JStr ''f2''),
            (''post'', JObj [(''id'', JStr ''123''), (''title'', JStr ''On Proofs''),
                             (''uniqueSlug'', JStr ''on-proofs'')])],
      JObj [(''feedId'', JStr ''f3''),
            (''post'', JObj [(''title'', JStr ''Second''),
                             (''mediumUrl'', JStr ''https://medium.com/@a/x'')])]]
   = Inr [\<lparr>title = JStr ''On Proofs'', author = JStr ''Unknown Author'',
            link = JStr ''https://medium.com/p/123''\<rparr>,
          \<lparr>title = JStr ''Second'', author = JStr ''Unknown Author'',
            link = JStr ''https://medium.com/@a/x''\<rparr>]
   \<and> length [\<lparr>title = JStr ''On Proofs'', author = JStr ''Unknown Author'',
            link = JStr ''https://medium.com/p/123''\<rparr>,
          \<lparr>title = JStr ''Second'', author = JStr ''Unknown Author'',
            link = JStr ''https://medium.com/@a/x''\<rparr>] < (3::nat)"
  using items_filtered_in_order [of
     "[JObj [(''feedId'', JStr ''f1''), (''post'', JNull)],
      JObj [(''feedId'', JStr ''f2''),
            (''post'', JObj [(''id'', JStr ''123''), (''title'', JStr ''On Proofs''),
                             (''uniqueSlug'', JStr ''on-proofs'')])],
      JObj [(''feedId'', JStr ''f3''),
            (''post'', JObj [(''title'', JStr ''Second''),
                             (''mediumUrl'', JStr ''https://medium.com/@a/x'')])]]"
     stub_repr]
  by (simp add: process_item_def fallback_link_def dict_get_def well_formed_item_def field_def
        creator_fields_def)

text \<open>
  The claim as it was stated speaks of every item list and of a link string. An item that is
  null lacks a post and is not skipped: the loop raises on it, as it does on an item whose
  post is a string. And a post whose \<^verbatim>\<open>mediumUrl\<close> is the number 5 is emitted with that
  number as its link.
\<close>

theorem items_filtered_in_order_counterexample:
  "items_loop stub_repr [] [JNull] = Inl AttributeError
   \<and> items_loop stub_repr [] [JObj [(''post'', JStr ''text'')]] = Inl AttributeError
   \<and> items_loop stub_repr [] [JObj [(''post'', JObj [(''mediumUrl'', JNum 5)])]]
       = Inr [\<lparr>title = JStr ''Untitled'', author = JStr ''Unknown Author'', link = JNum 5\<rparr>]"
  by (simp add: process_item_def fallback_link_def dict_get_def)

subsection \<open>Validation of the request\<close>

text \<open>
  Claim C5, as amended. With the API key configured and a request body that is a non-empty
  JSON object: when \<^verbatim>\<open>tagSlug\<close> is absent or empty the handler answers 400 with the error
  \<^verbatim>\<open>Missing 'tagSlug' in request body.\<close>; otherwise, when \<^verbatim>\<open>mode\<close> is absent or empty, 400
  with \<^verbatim>\<open>Missing 'mode' in request body.\<close>; otherwise, when the mode, trimmed and
  uppercased by Python's \<^verbatim>\<open>str.strip\<close> and \<^verbatim>\<open>str.upper\<close>, is not one of the six, 400 with
  an error listing the six valid modes. In all three cases no request is sent to Medium.
\<close>

theorem invalid_requests_rejected:
  assumes "api_key \<noteq> []" and "client_data \<noteq> []"
  shows
   "(\<not> truthy (field client_data ''tagSlug'') \<longrightarrow>
       get_tag_feed_handler lib (Some api_key) (Inr (JObj client_data))
         = (Inr (respond [(''error'', JStr ''Missing 'tagSlug' in request body.'')] 400), []))
    \<and> (truthy (field client_data ''tagSlug'') \<and> \<not> truthy (field client_data ''mode'') \<longrightarrow>
       get_tag_feed_handler lib (Some api_key) (Inr (JObj client_data))
         = (Inr (respond [(''error'', JStr ''Missing 'mode' in request body.'')] 400), []))
    \<and> (truthy (field client_data ''tagSlug'') \<and> truthy (field client_data ''mode'')
        \<and> py_upper lib (py_strip lib (py_str (py_repr lib) (field client_data ''mode''))) \<notin> set valid_modes \<longrightarrow>
       get_tag_feed_handler lib (Some api_key) (Inr (JObj client_data))
         = (Inr (respond [(''error'',
                   JStr (''Invalid mode. Must be one of: ''
                           @ ''HOT, NEW, TOP_ALL_TIME, TOP_MONTH, TOP_WEEK, TOP_YEAR''))]
                   400), []))"
proof -
  have j: "join '', '' valid_modes = ''HOT, NEW, TOP_ALL_TIME, TOP_MONTH, TOP_WEEK, TOP_YEAR''"
    by (simp add: valid_modes_def)
  show ?thesis
    using assms
    by (simp add: get_tag_feed_handler_def dict_get_null_field Let_def j)
qed

text \<open>
  Three bodies: without \<^verbatim>\<open>tagSlug\<close>, with an empty \<^verbatim>\<open>mode\<close>, and with a mode outside
  the six. No request reaches Medium.
\<close>

theorem invalid_requests_rejected_witness:
  "get_tag_feed_handler (stub_library (Inl Timeout) ''{}'' (JObj [])) (Some ''key'')
       (Inr (JObj [(''mode'', JStr ''hot'')]))
     = (Inr (respond [(''error'', JStr ''Missing 'tagSlug' in request body.'')] 400), [])
   \<and> get_tag_feed_handler (stub_library (Inl Timeout) ''{}'' (JObj [])) (Some ''key'')
       (Inr (JObj [(''tagSlug'', JStr ''rust''), (''mode'', JStr '''')]))
     = (Inr (respond [(''error'', JStr ''Missing 'mode' in request body.'')] 400), [])
   \<and> get_tag_feed_handler (stub_library (Inl Timeout) ''{}'' (JObj [])) (Some ''key'')
       (Inr (JObj [(''tagSlug'', JStr ''rust''), (''mode'', JStr '' Latest '')]))
     = (Inr (respond [(''error'',
               JStr (''Invalid mode. Must be one of: ''
                       @ ''HOT, NEW, TOP_ALL_TIME, TOP_MONTH, TOP_WEEK, TOP_YEAR''))]
               400), [])"
  using
    invalid_requests_rejected [of "''key''" "[(''mode'', JStr ''hot'')]"
      "stub_library (Inl Timeout) ''{}'' (JObj [])"]
    invalid_requests_rejected [of "''key''" "[(''tagSlug'', JStr ''rust''), (''mode'', JStr '''')]"
      "stub_library (Inl Timeout) ''{}'' (JObj [])"]
    invalid_requests_rejected [of "''key''"
      "[(''tagSlug'', JStr ''rust''), (''mode'', JStr '' Latest '')]"
      "stub_library (Inl Timeout) ''{}'' (JObj [])"]
  by (simp add: field_def stub_library_def stub_strip_def stub_upper_def stub_parse_def
        valid_modes_def)

text \<open>
  The claim as it was stated covers every body in which \<^verbatim>\<open>tagSlug\<close> is absent. The empty
  object is such a body, and the answer to it names no field: the guard on the body as a
  whole comes first. And without an API key the same kind of body is answered 500.
\<close>

theorem invalid_requests_rejected_counterexample:
  "get_tag_feed_handler (stub_library (Inl Timeout) ''{}'' (JObj [])) (Some ''key'')
       (Inr (JObj []))
     = (Inr (respond [(''error'',
               JStr ''No JSON data provided in request body or invalid JSON format.'')] 400), [])
   \<and> get_tag_feed_handler (stub_library (Inl Timeout) ''{}'' (JObj [])) None
       (Inr (JObj [(''mode'', JStr ''hot'')]))
     = (Inr (respond [(''error'', JStr ''Server configuration error: API key missing.'')] 500), [])"
  by (simp add: get_tag_feed_handler_def)

subsection \<open>Failures of the upstream call\<close>

text \<open>
  What the \<^verbatim>\<open>except\<close> clauses do answer, once the handler has sent its request to Medium:
  504 for a timeout, 503 for any other failure of the request, 502 for a body that does not
  parse as JSON after cleaning. A 4xx or 5xx status of Medium, and every \<^verbatim>\<open>HTTPError\<close> that
  carries a response, is passed on with its status as long as \<^verbatim>\<open>e.response.json()\<close>
  returns or raises a \<^verbatim>\<open>JSONDecodeError\<close>.
\<close>

lemma upstream_failures_answered:
  assumes "snd (get_tag_feed_handler lib key client) = [req]"
  shows
   "(requests_post lib req = Inl Timeout \<longrightarrow>
       fst (get_tag_feed_handler lib key client)
         = Inr (respond [(''error'', JStr ''Request to Medium API timed out.''),
                         (''details'', JStr ''The upstream server took too long to respond.'')]
                  504))
    \<and> (\<forall>msg. requests_post lib req = Inl (RequestException msg) \<longrightarrow>
       fst (get_tag_feed_handler lib key client)
         = Inr (respond [(''error'',
                   JStr ''Network error connecting to Medium API. Check internet connection.''),
                         (''details'', JStr msg)] 503))
    \<and> (\<forall>r msg. requests_post lib req = Inr r
          \<and> (status_code r < 400 \<or> 600 \<le> status_code r)
          \<and> json_loads lib (clean_medium_response (response_text r)) = Inl (JSONDecodeError msg) \<longrightarrow>
       fst (get_tag_feed_handler lib key client)
         = Inr (respond [(''error'', JStr ''Invalid or unexpected response format from Medium.''),
                         (''details'', JStr msg)] 502))
    \<and> (\<forall>r. requests_post lib req = Inr r \<and> 400 \<le> status_code r \<and> status_code r < 600
          \<and> ((\<exists>d. response_json lib r = Inr d)
              \<or> (\<exists>m. response_json lib r = Inl (JSONDecodeError m))) \<longrightarrow>
       (\<exists>msg. fst (get_tag_feed_handler lib key client)
         = Inr (respond [(''error'', JStr ''Failed to communicate effectively with Medium API.''),
                         (''details'', JStr msg)] (status_code r))))
    \<and> (\<forall>r msg. requests_post lib req = Inl (HTTPError (Some r) msg)
          \<and> ((\<exists>d. response_json lib r = Inr d)
              \<or> (\<exists>m. response_json lib r = Inl (JSONDecodeError m))) \<longrightarrow>
       fst (get_tag_feed_handler lib key client)
         = Inr (respond [(''error'', JStr ''Failed to communicate effectively with Medium API.''),
                         (''details'', JStr msg)] (status_code r)))"
proof -
  have h: "fst (get_tag_feed_handler lib key client) = call_medium lib req"
    using assms by (rule handler_sent)
  have caught: "except_clauses lib (HTTPError (Some r) msg)
         = Inr (respond [(''error'', JStr ''Failed to communicate effectively with Medium API.''),
                         (''details'', JStr msg)] (status_code r))"
    if "(\<exists>d. response_json lib r = Inr d) \<or> (\<exists>m. response_json lib r = Inl (JSONDecodeError m))"
    for r msg
    using that by (auto simp: except_clauses_def)
  have passthrough: "\<exists>msg. call_medium lib req
         = Inr (respond [(''error'', JStr ''Failed to communicate effectively with Medium API.''),
                         (''details'', JStr msg)] (status_code r))"
    if rp: "requests_post lib req = Inr r" and lo: "400 \<le> status_code r"
      and hi: "status_code r < 600"
      and js: "(\<exists>d. response_json lib r = Inr d)
               \<or> (\<exists>m. response_json lib r = Inl (JSONDecodeError m))" for r
  proof -
    obtain msg where "raise_for_status r = Inl (HTTPError (Some r) msg)"
      using raise_for_status_raises lo hi by blast
    with rp show ?thesis
      by (auto simp: call_medium_def try_block_def caught [OF js])
  qed
  have carried: "call_medium lib req
         = Inr (respond [(''error'', JStr ''Failed to communicate effectively with Medium API.''),
                         (''details'', JStr msg)] (status_code r))"
    if "requests_post lib req = Inl (HTTPError (Some r) msg)"
      and js: "(\<exists>d. response_json lib r = Inr d)
               \<or> (\<exists>m. response_json lib r = Inl (JSONDecodeError m))" for r msg
    using that(1) by (simp add: call_medium_def try_block_def caught [OF js])
  have others: "requests_post lib req = Inl Timeout \<longrightarrow> call_medium lib req
         = Inr (respond [(''error'', JStr ''Request to Medium API timed out.''),
                         (''details'', JStr ''The upstream server took too long to respond.'')]
                  504)"
    "\<forall>msg. requests_post lib req = Inl (RequestException msg) \<longrightarrow> call_medium lib req
         = Inr (respond [(''error'',
                   JStr ''Network error connecting to Medium API. Check internet connection.''),
                         (''details'', JStr msg)] 503)"
    "\<forall>r msg. requests_post lib req = Inr r
          \<and> (status_code r < 400 \<or> 600 \<le> status_code r)
          \<and> json_loads lib (clean_medium_response (response_text r)) = Inl (JSONDecodeError msg) \<longrightarrow>
       call_medium lib req
         = Inr (respond [(''error'', JStr ''Invalid or unexpected response format from Medium.''),
                         (''details'', JStr msg)] 502)"
    by (auto simp: call_medium_def try_block_def except_clauses_def raise_for_status_passes)
  show ?thesis
    unfolding h using others passthrough carried by blast
qed

text \<open>
  Claim C6. An upstream timeout should be answered 504, any other network failure 503, a
  body that is no JSON 502, and a 4xx or 5xx status of Medium with that same status, falling
  back to 503 when no upstream status is available, each time with a JSON error body. The
  code does not pass every upstream status on. When Medium answers 403 with a body nested
  deeper than the recursion limit, \<^verbatim>\<open>e.response.json()\<close> on line 196 raises
  \<^verbatim>\<open>RecursionError\<close>, the inner \<^verbatim>\<open>try\<close> catches a \<^verbatim>\<open>JSONDecodeError\<close> only, and the
  exception leaves the handler: no 403 and no JSON body. And the fallback to 503 is never
  reached: for an \<^verbatim>\<open>HTTPError\<close> without a response, line 194 reads
  \<^verbatim>\<open>e.response.status_code\<close> first and raises \<^verbatim>\<open>AttributeError\<close>, which leaves the
  handler as well.
\<close>

theorem upstream_status_not_passed_on:
  "fst (get_tag_feed_handler
        ((stub_library
            (Inr \<lparr>status_code = 403, reason = ''Forbidden'', url = MEDIUM_GRAPHQL_ENDPOINT,
                   response_text = replicate 100000 (CHR ''['')\<rparr>) ''{}'' (JObj []))
           \<lparr>response_json := too_deep_json\<rparr>)
        (Some ''key'') (Inr (JObj [(''tagSlug'', JStr ''rust''), (''mode'', JStr ''hot'')])))
     = Inl RecursionError
   \<and> fst (get_tag_feed_handler
        (stub_library (Inl (HTTPError None ''no response'')) ''{}'' (JObj []))
        (Some ''key'') (Inr (JObj [(''tagSlug'', JStr ''rust''), (''mode'', JStr ''hot'')])))
     = Inl AttributeError"
  by (simp add: get_tag_feed_handler_def dict_get_def stub_library_def stub_strip_def
        stub_upper_def stub_parse_def too_deep_json_def valid_modes_def call_medium_def
        try_block_def except_clauses_def raise_for_status_def Let_def)

subsection \<open>GraphQL errors and the path to the items\<close>



text \<open>
  Claim C8, as amended. For a parsed payload object that passes the \<^verbatim>\<open>errors\<close> check (no
  \<^verbatim>\<open>errors\<close> key, or an empty value under it): when the key \<^verbatim>\<open>data\<close> is absent, or
  \<^verbatim>\<open>data\<close> is an object without the key \<^verbatim>\<open>tagFeed\<close>, or \<^verbatim>\<open>tagFeed\<close> is an object without
  the key \<^verbatim>\<open>items\<close>, the item list defaults to the empty list and the handler answers 200
  with an empty \<^verbatim>\<open>articles\<close> list.
\<close>

theorem missing_path_gives_empty_list:
  assumes "snd (get_tag_feed_handler lib key client) = [req]"
    and "requests_post lib req = Inr r" and "status_code r < 400 \<or> 600 \<le> status_code r"
    and "json_loads lib (clean_medium_response (response_text r)) = Inr (JObj payload)"
    and "\<not> truthy (field payload ''errors'')"
    and "map_of payload ''data'' = None
         \<or> (\<exists>data. map_of payload ''data'' = Some (JObj data)
               \<and> (map_of data ''tagFeed'' = None
                    \<or> (\<exists>tag_feed. map_of data ''tagFeed'' = Some (JObj tag_feed)
                          \<and> map_of tag_feed ''items'' = None)))"
  shows "fst (get_tag_feed_handler lib key client) = Inr (respond [(''articles'', JArr [])] 200)"
proof -
  have "normalize_payload (py_repr lib) (JObj payload)
          = Inr (respond [(''articles'', JArr [])] 200)"
    using assms(6)
    by (auto simp: normalize_payload_def dict_get_object iterate_def)
  with assms(5) show ?thesis
    by (simp add: handler_parsed [OF assms(1,2,3,4)])
qed

text \<open>The payload \<^verbatim>\<open>{"data":{}}\<close>, sent with the anti-hijacking prefix.\<close>

theorem missing_path_gives_empty_list_witness:
  \<open>fst (get_tag_feed_handler
        (stub_library
           (Inr \<lparr>status_code = 200, reason = ''OK'', url = MEDIUM_GRAPHQL_ENDPOINT,
                  response_text = ''])}while(1);</x>{"data":{}}''\<rparr>)
           ''{"data":{}}'' (JObj [(''data'', JObj [])]))
        (Some ''key'') (Inr (JObj [(''tagSlug'', JStr ''rust''), (''mode'', JStr ''hot'')])))
     = Inr (respond [(''articles'', JArr [])] 200)\<close>
  using
    missing_path_gives_empty_list [of
      \<open>stub_library
           (Inr \<lparr>status_code = 200, reason = ''OK'', url = MEDIUM_GRAPHQL_ENDPOINT,
                  response_text = ''])}while(1);</x>{"data":{}}''\<rparr>)
           ''{"data":{}}'' (JObj [(''data'', JObj [])])\<close>
      \<open>Some ''key''\<close> \<open>Inr (JObj [(''tagSlug'', JStr ''rust''), (''mode'', JStr ''hot'')])\<close>
      \<open>build_request ''key'' (JStr ''rust'') ''HOT''\<close>
      \<open>\<lparr>status_code = 200, reason = ''OK'', url = MEDIUM_GRAPHQL_ENDPOINT,
                  response_text = ''])}while(1);</x>{"data":{}}''\<rparr>\<close>
      \<open>[(''data'', JObj [])]\<close>]
  by (simp add: get_tag_feed_handler_def dict_get_def stub_library_def stub_strip_def stub_upper_def
        stub_parse_def valid_modes_def clean_medium_response_def startswith_def
        prefix_to_remove_def Let_def field_def)

text \<open>
  The claim as it was stated covers every parsed payload with a missing path segment. A
  payload that has only an \<^verbatim>\<open>errors\<close> array misses \<^verbatim>\<open>data\<close> and is answered 400; and a
  payload whose \<^verbatim>\<open>tagFeed\<close> is null has no \<^verbatim>\<open>items\<close> and is answered 500, since only an
  absent key takes the default.
\<close>

theorem missing_path_gives_empty_list_counterexample:
  \<open>fst (get_tag_feed_handler
        (stub_library
           (Inr \<lparr>status_code = 200, reason = ''OK'', url = MEDIUM_GRAPHQL_ENDPOINT,
                  response_text = ''{"errors":["boom"]}''\<rparr>)
           ''{"errors":["boom"]}'' (JObj [(''errors'', JArr [JStr ''boom''])]))
        (Some ''key'') (Inr (JObj [(''tagSlug'', JStr ''rust''), (''mode'', JStr ''hot'')])))
     = Inr (respond [(''error'', JStr ''GraphQL error(s) received from Medium.''),
                     (''details'', JArr [JStr ''boom''])] 400)
   \<and> fst (get_tag_feed_handler
        (stub_library
           (Inr \<lparr>status_code = 200, reason = ''OK'', url = MEDIUM_GRAPHQL_ENDPOINT,
                  response_text = ''{"data":{"tagFeed":null}}''\<rparr>)
           ''{"data":{"tagFeed":null}}'' (JObj [(''data'', JObj [(''tagFeed'', JNull)])]))
        (Some ''key'') (Inr (JObj [(''tagSlug'', JStr ''rust''), (''mode'', JStr ''hot'')])))
     = Inr internal_error\<close>
  by (simp add: get_tag_feed_handler_def dict_get_def stub_library_def stub_strip_def stub_upper_def
        stub_parse_def valid_modes_def clean_medium_response_def startswith_def
        prefix_to_remove_def normalize_payload_def iterate_def Let_def call_medium_def
        try_block_def raise_for_status_def process_payload_def py_in_def subscript_def
        except_clauses_def internal_error_def)

text \<open>
  Claim C10. When an item of the feed has a post object whose \<^verbatim>\<open>creator\<close> is JSON null, the
  loop body raises on that item instead of emitting an article with the placeholder author,
  and the whole request is answered by the catch-all clause: HTTP 500, no articles, whatever
  the other items are.
\<close>

theorem null_creator_fails_request:
  assumes "snd (get_tag_feed_handler lib key client) = [req]"
    and "requests_post lib req = Inr r" and "status_code r < 400 \<or> 600 \<le> status_code r"
    and "json_loads lib (clean_medium_response (response_text r)) = Inr (JObj payload)"
    and "\<not> truthy (field payload ''errors'')"
    and "field payload ''data'' = JObj data"
    and "field data ''tagFeed'' = JObj tag_feed"
    and "field tag_feed ''items'' = JArr items"
    and "JObj item \<in> set items"
    and "field item ''post'' = JObj post"
    and "map_of post ''creator'' = Some JNull"
  shows "process_item (py_repr lib) (JObj item) = Inl AttributeError
    \<and> fst (get_tag_feed_handler lib key client) = Inr internal_error"
proof -
  have ne: "post \<noteq> []"
    using assms(11) by auto
  have cf: "creator_fields post = None"
    using assms(11) by (simp add: creator_fields_def)
  have one: "process_item (py_repr lib) (JObj item) = Inl AttributeError"
    using assms(10) ne cf by (rule process_item_creator_not_object)
  have "\<not> well_formed_item (JObj item)"
    using assms(10) ne cf by (simp add: well_formed_item_def)
  with assms(9) have "items_loop (py_repr lib) [] items = Inl AttributeError"
    by (rule items_loop_fails)
  then have "normalize_payload (py_repr lib) (JObj payload) = Inl AttributeError"
    using assms(6,7,8)
    by (simp add: normalize_payload_def dict_get_null_field dict_get_object field_def iterate_def
          split: option.splits)
  with assms(5) have "fst (get_tag_feed_handler lib key client) = Inr internal_error"
    by (simp add: handler_parsed [OF assms(1,2,3,4)] except_clauses_internal)
  with one show ?thesis
    by simp
qed

text \<open>Two items, the second with \<^verbatim>\<open>creator: null\<close>: the first article is lost as well.\<close>

theorem null_creator_fails_request_witness:
  \<open>process_item stub_repr
       (JObj [(''feedId'', JStr ''f2''),
              (''post'', JObj [(''title'', JStr ''Second''), (''creator'', JNull)])])
     = Inl AttributeError
   \<and> fst (get_tag_feed_handler
        (stub_library
           (Inr \<lparr>status_code = 200, reason = ''OK'', url = MEDIUM_GRAPHQL_ENDPOINT,
                  response_text = (''{"data":{"tagFeed":{"items":[''
                    @ ''{"feedId":"f1","post":{"title":"First",''
                    @ ''"mediumUrl":"https://medium.com/@a/x","creator":{"name":"Ann"}}},''
                    @ ''{"feedId":"f2","post":{"title":"Second","creator":null}}]}}}'')\<rparr>)
           (''{"data":{"tagFeed":{"items":[''
                    @ ''{"feedId":"f1","post":{"title":"First",''
                    @ ''"mediumUrl":"https://medium.com/@a/x","creator":{"name":"Ann"}}},''
                    @ ''{"feedId":"f2","post":{"title":"Second","creator":null}}]}}}'')
           (JObj [(''data'', JObj [(''tagFeed'', JObj [(''items'', JArr
              [JObj [(''feedId'', JStr ''f1''),
                     (''post'', JObj [(''title'', JStr ''First''),
                                      (''mediumUrl'', JStr ''https://medium.com/@a/x''),
                                      (''creator'', JObj [(''name'', JStr ''Ann'')])])],
               JObj [(''feedId'', JStr ''f2''),
                     (''post'', JObj [(''title'', JStr ''Second''),
                                      (''creator'', JNull)])]])])])]))
        (Some ''key'') (Inr (JObj [(''tagSlug'', JStr ''rust''), (''mode'', JStr ''hot'')])))
     = Inr internal_error\<close>
  using
    null_creator_fails_request [of
      \<open>stub_library
           (Inr \<lparr>status_code = 200, reason = ''OK'', url = MEDIUM_GRAPHQL_ENDPOINT,
                  response_text = (''{"data":{"tagFeed":{"items":[''
                    @ ''{"feedId":"f1","post":{"title":"First",''
                    @ ''"mediumUrl":"https://medium.com/@a/x","creator":{"name":"Ann"}}},''
                    @ ''{"feedId":"f2","post":{"title":"Second","creator":null}}]}}}'')\<rparr>)
           (''{"data":{"tagFeed":{"items":[''
                    @ ''{"feedId":"f1","post":{"title":"First",''
                    @ ''"mediumUrl":"https://medium.com/@a/x","creator":{"name":"Ann"}}},''
                    @ ''{"feedId":"f2","post":{"title":"Second","creator":null}}]}}}'')
           (JObj [(''data'', JObj [(''tagFeed'', JObj [(''items'', JArr
              [JObj [(''feedId'', JStr ''f1''),
                     (''post'', JObj [(''title'', JStr ''First''),
                                      (''mediumUrl'', JStr ''https://medium.com/@a/x''),
                                      (''creator'', JObj [(''name'', JStr ''Ann'')])])],
               JObj [(''feedId'', JStr ''f2''),
                     (''post'', JObj [(''title'', JStr ''Second''),
                                      (''creator'', JNull)])]])])])])\<close>
      \<open>Some ''key''\<close> \<open>Inr (JObj [(''tagSlug'', JStr ''rust''), (''mode'', JStr ''hot'')])\<close>
      \<open>build_request ''key'' (JStr ''rust'') ''HOT''\<close>
      \<open>\<lparr>status_code = 200, reason = ''OK'', url = MEDIUM_GRAPHQL_ENDPOINT,
                  response_text = (''{"data":{"tagFeed":{"items":[''
                    @ ''{"feedId":"f1","post":{"title":"First",''
                    @ ''"mediumUrl":"https://medium.com/@a/x","creator":{"name":"Ann"}}},''
                    @ ''{"feedId":"f2","post":{"title":"Second","creator":null}}]}}}'')\<rparr>\<close>
      \<open>[(''data'', JObj [(''tagFeed'', JObj [(''items'', JArr
              [JObj [(''feedId'', JStr ''f1''),
                     (''post'', JObj [(''title'', JStr ''First''),
                                      (''mediumUrl'', JStr ''https://medium.com/@a/x''),
                                      (''creator'', JObj [(''name'', JStr ''Ann'')])])],
               JObj [(''feedId'', JStr ''f2''),
                     (''post'', JObj [(''title'', JStr ''Second''),
                                      (''creator'', JNull)])]])])])]\<close>
      \<open>[(''tagFeed'', JObj [(''items'', JArr
              [JObj [(''feedId'', JStr ''f1''),
                     (''post'', JObj [(''title'', JStr ''First''),
                                      (''mediumUrl'', JStr ''https://medium.com/@a/x''),
                                      (''creator'', JObj [(''name'', JStr ''Ann'')])])],
               JObj [(''feedId'', JStr ''f2''),
                     (''post'', JObj [(''title'', JStr ''Second''),
                                      (''creator'', JNull)])]])])]\<close>
      \<open>[(''items'', JArr
              [JObj [(''feedId'', JStr ''f1''),
                     (''post'', JObj [(''title'', JStr ''First''),
                                      (''mediumUrl'', JStr ''https://medium.com/@a/x''),
                                      (''creator'', JObj [(''name'', JStr ''Ann'')])])],
               JObj [(''feedId'', JStr ''f2''),
                     (''post'', JObj [(''title'', JStr ''Second''),
                                      (''creator'', JNull)])]])]\<close>
      \<open>[JObj [(''feedId'', JStr ''f1''),
                     (''post'', JObj [(''title'', JStr ''First''),
                                      (''mediumUrl'', JStr ''https://medium.com/@a/x''),
                                      (''creator'', JObj [(''name'', JStr ''Ann'')])])],
               JObj [(''feedId'', JStr ''f2''),
                     (''post'', JObj [(''title'', JStr ''Second''),
                                      (''creator'', JNull)])]]\<close>
      \<open>[(''feedId'', JStr ''f2''),
        (''post'', JObj [(''title'', JStr ''Second''), (''creator'', JNull)])]\<close>
      \<open>[(''title'', JStr ''Second''), (''creator'', JNull)]\<close>]
  by (simp add: get_tag_feed_handler_def dict_get_def stub_library_def stub_strip_def stub_upper_def
        stub_parse_def valid_modes_def clean_medium_response_def startswith_def
        prefix_to_remove_def Let_def field_def)

subsection \<open>Cleaning the upstream body\<close>

text \<open>
  Claim C4. A body that starts with the literal \<^verbatim>\<open>])}while(1);</x>\<close> loses exactly that
  prefix: putting the prefix back in front of the cleaned body gives the body. A body that
  does not start with the prefix is returned unchanged. The cleaning happens before JSON
  parsing: once Medium has answered with a status that \<^verbatim>\<open>raise_for_status\<close> accepts,
  \<^verbatim>\<open>json.loads\<close> is given the body without its prefix, or the body as it is when it has
  none.
\<close>

theorem clean_strips_exact_prefix:
  "(prefix prefix_to_remove text \<longrightarrow> prefix_to_remove @ clean_medium_response text = text)
   \<and> (\<not> prefix prefix_to_remove text \<longrightarrow> clean_medium_response text = text)
   \<and> (requests_post lib req = Inr r \<and> raise_for_status r = Inr () \<and> response_text r = text \<longrightarrow>
        try_block lib req =
          then_do (json_loads lib (if prefix prefix_to_remove text then drop 16 text else text))
            (process_payload (py_repr lib)))"
proof (intro conjI impI)
  assume "prefix prefix_to_remove text"
  then obtain t where "text = prefix_to_remove @ t"
    by (auto simp: prefix_def)
  then show "prefix_to_remove @ clean_medium_response text = text"
    by (simp add: clean_medium_response_append)
next
  assume "\<not> prefix prefix_to_remove text"
  then show "clean_medium_response text = text"
    by (simp add: clean_medium_response_def startswith_iff_prefix)
next
  assume a: "requests_post lib req = Inr r \<and> raise_for_status r = Inr () \<and> response_text r = text"
  have "clean_medium_response text = (if prefix prefix_to_remove text then drop 16 text else text)"
    by (simp add: clean_medium_response_def startswith_iff_prefix length_prefix_to_remove)
  with a show "try_block lib req =
      then_do (json_loads lib (if prefix prefix_to_remove text then drop 16 text else text))
        (process_payload (py_repr lib))"
    by (simp add: try_block_def)
qed

text \<open>
  The theorem at two bodies, one with the prefix and one without; with the prefix, the stub
  parser (which knows only \<^verbatim>\<open>{}\<close>) is reached with the cleaned text and the handler's
  \<^verbatim>\<open>try\<close> block answers 200.
\<close>

theorem clean_strips_exact_prefix_witness:
  "prefix prefix_to_remove ''])}while(1);</x>{}''
   \<and> clean_medium_response ''])}while(1);</x>{}'' = ''{}''
   \<and> \<not> prefix prefix_to_remove ''{}''
   \<and> clean_medium_response ''{}'' = ''{}''
   \<and> try_block
        (stub_library
           (Inr \<lparr>status_code = 200, reason = ''OK'', url = MEDIUM_GRAPHQL_ENDPOINT,
                  response_text = ''])}while(1);</x>{}''\<rparr>) ''{}'' (JObj []))
        (build_request ''key'' (JStr ''rust'') ''HOT'')
       = Inr (respond [(''articles'', JArr [])] 200)"
  using clean_strips_exact_prefix [of "''])}while(1);</x>{}''"
      "stub_library
           (Inr \<lparr>status_code = 200, reason = ''OK'', url = MEDIUM_GRAPHQL_ENDPOINT,
                  response_text = ''])}while(1);</x>{}''\<rparr>) ''{}'' (JObj [])"
      "build_request ''key'' (JStr ''rust'') ''HOT''"
      "\<lparr>status_code = 200, reason = ''OK'', url = MEDIUM_GRAPHQL_ENDPOINT,
                  response_text = ''])}while(1);</x>{}''\<rparr>"]
    clean_strips_exact_prefix [of "''{}''"]
  by (simp add: prefix_to_remove_def stub_library_def stub_parse_def raise_for_status_def
       process_payload_def
       py_in_def normalize_payload_def dict_get_def iterate_def)

text \<open>
  Claim C9. One call removes one occurrence of the prefix: cleaning the prefix followed by
  any \<open>t\<close> gives exactly \<open>t\<close>. So a body that starts with the prefix twice still starts with it
  once after cleaning, and cleaning that result again changes it: the function is not
  idempotent on such bodies.
\<close>

theorem clean_removes_one_prefix_only:
  "clean_medium_response (prefix_to_remove @ t) = t
   \<and> clean_medium_response (prefix_to_remove @ prefix_to_remove @ t) = prefix_to_remove @ t
   \<and> clean_medium_response (clean_medium_response (prefix_to_remove @ prefix_to_remove @ t))
        \<noteq> clean_medium_response (prefix_to_remove @ prefix_to_remove @ t)"
proof -
  have once: "clean_medium_response (prefix_to_remove @ u) = u" for u
    by (rule clean_medium_response_append)
  have "length t \<noteq> length (prefix_to_remove @ t)"
    by (simp add: length_prefix_to_remove)
  then have "t \<noteq> prefix_to_remove @ t"
    by metis
  then show ?thesis
    by (simp only: once) simp
qed

end
